theory Spec2Isabelle
  imports Main "HOL-Library.Sublist"
begin

section \<open>Data leaves: questions, quiz, player\<close>

text \<open>
  Python's unbounded \<open>int\<close> is \<open>int\<close>; \<open>str\<close> is \<open>string\<close>; a \<open>datetime\<close> is a
  point on a clock, read as a natural number. \<open>datetime.utcnow()\<close> is the argument
  \<open>now\<close> of the constructors that read the clock. A raised \<open>ValueError\<close> is the
  left summand of the constructor's result.
\<close>

type_synonym datetime = nat

datatype error = ValueError

record choice_question =
  cq_question_id :: "string option"
  cq_text :: string
  cq_time_limit_seconds :: int
  options :: "string list"
  correct_index :: int

record true_false_question =
  tf_question_id :: "string option"
  tf_text :: string
  tf_time_limit_seconds :: int
  correct_answer :: bool

datatype base_question =
  ChoiceQuestion choice_question
| TrueFalseQuestion true_false_question

text \<open>\<open>ChoiceQuestion.__init__\<close> (models/choice_question.py): the two checks, in the
  source's order, then the stores.\<close>

definition ChoiceQuestion_init ::
  "string \<Rightarrow> string list \<Rightarrow> int \<Rightarrow> int \<Rightarrow> string option \<Rightarrow> error + choice_question" where
  "ChoiceQuestion_init txt opts idx time_limit qid =
     (if opts = [] then Inl ValueError
      else if idx < 0 \<or> idx \<ge> int (length opts) then Inl ValueError
      else Inr \<lparr>cq_question_id = qid, cq_text = txt, cq_time_limit_seconds = time_limit,
                options = opts, correct_index = idx\<rparr>)"

definition TrueFalseQuestion_init ::
  "string \<Rightarrow> bool \<Rightarrow> int \<Rightarrow> string option \<Rightarrow> true_false_question" where
  "TrueFalseQuestion_init txt ans time_limit qid =
     \<lparr>tf_question_id = qid, tf_text = txt, tf_time_limit_seconds = time_limit,
      correct_answer = ans\<rparr>"

record quiz =
  quiz_id :: "string option"
  title :: string
  description :: string
  questions :: "base_question list"
  quiz_created_at :: datetime

text \<open>\<open>Quiz.__init__\<close>, \<open>question_count\<close> and \<open>get_question_at\<close> (models/quiz.py).\<close>

definition Quiz_init ::
  "string \<Rightarrow> base_question list \<Rightarrow> string option \<Rightarrow> string \<Rightarrow> datetime option \<Rightarrow> datetime
     \<Rightarrow> error + quiz" where
  "Quiz_init ttl qs qid descr created now =
     (if qs = [] then Inl ValueError
      else Inr \<lparr>quiz_id = qid, title = ttl, description = descr, questions = qs,
                quiz_created_at = (case created of None \<Rightarrow> now | Some t \<Rightarrow> t)\<rparr>)"

definition question_count :: "quiz \<Rightarrow> int" where
  "question_count q = int (length (questions q))"

definition get_question_at :: "quiz \<Rightarrow> int \<Rightarrow> base_question option" where
  "get_question_at q i =
     (if 0 \<le> i \<and> i < int (length (questions q)) then Some (questions q ! nat i) else None)"

record player =
  connection_id :: string
  nickname :: string
  score :: int
  joined_at :: datetime

text \<open>\<open>Player.__init__\<close>, the \<open>score\<close> setter and \<open>add_score\<close> (models/player.py).
  The setter raises on a negative value before it stores; \<open>add_score\<close> is the bare
  \<open>self._score += points\<close>.\<close>

definition Player_init :: "string \<Rightarrow> string \<Rightarrow> int \<Rightarrow> datetime option \<Rightarrow> datetime \<Rightarrow> player" where
  "Player_init cid nick sc joined now =
     \<lparr>connection_id = cid, nickname = nick, score = sc,
      joined_at = (case joined of None \<Rightarrow> now | Some t \<Rightarrow> t)\<rparr>"

definition set_score :: "int \<Rightarrow> player \<Rightarrow> error + player" where
  "set_score v p = (if v < 0 then Inl ValueError else Inr (p\<lparr>score := v\<rparr>))"

definition add_score :: "int \<Rightarrow> player \<Rightarrow> player" where
  "add_score points p = p\<lparr>score := score p + points\<rparr>"

section \<open>Session and its states\<close>

text \<open>
  The four concrete subclasses of \<open>GameState\<close> carry no data, so a state object is a
  constructor. The callback registered with \<open>set_broadcast_callback\<close> is a callable of
  the transport layer; the session only stores it and calls it, so it is a name here.

  The field \<open>effects\<close> is the list, in call order, of what the session has done to its
  collaborators during transitions: the calls of \<open>on_leave\<close> and \<open>on_enter\<close>, the
  assignment to \<open>_state\<close>, and the calls of the callback. No operation reads it.
\<close>

datatype game_state = LobbyState | QuestionState | LeaderboardState | FinishedState

type_synonym callback = nat

datatype effect =
  Called_on_leave game_state
| State_replaced game_state
| Called_on_enter game_state
| Called_callback callback

record game_session =
  session_id :: "string option"
  pin :: string
  quiz :: quiz
  players :: "string \<rightharpoonup> player"
  current_question_index :: int
  created_at :: datetime
  state :: "game_state option"
  broadcast_callback :: "callback option"
  current_question_answered :: "string set"
  effects :: "effect list"

definition GameSession_init ::
  "string \<Rightarrow> quiz \<Rightarrow> string option \<Rightarrow> datetime option \<Rightarrow> game_state option \<Rightarrow> datetime
     \<Rightarrow> game_session" where
  "GameSession_init p q sid created initial_state now =
     \<lparr>session_id = sid, pin = p, quiz = q, players = Map.empty,
      current_question_index = 0,
      created_at = (case created of None \<Rightarrow> now | Some t \<Rightarrow> t),
      state = (case initial_state of None \<Rightarrow> Some LobbyState | Some st \<Rightarrow> Some st),
      broadcast_callback = None,
      current_question_answered = {},
      effects = []\<rparr>"

text \<open>The two property setters of the class. No code of the repository calls them.\<close>

definition set_current_question_index :: "int \<Rightarrow> game_session \<Rightarrow> game_session" where
  "set_current_question_index v s = s\<lparr>current_question_index := v\<rparr>"

definition set_state :: "game_state option \<Rightarrow> game_session \<Rightarrow> game_session" where
  "set_state v s = s\<lparr>state := v\<rparr>"

definition add_player :: "player \<Rightarrow> game_session \<Rightarrow> game_session" where
  "add_player p s = s\<lparr>players := (players s)(connection_id p \<mapsto> p)\<rparr>"

definition remove_player :: "string \<Rightarrow> game_session \<Rightarrow> player option \<times> game_session" where
  "remove_player c s = (players s c, s\<lparr>players := (players s)(c := None)\<rparr>)"

definition get_player :: "string \<Rightarrow> game_session \<Rightarrow> player option" where
  "get_player c s = players s c"

definition set_broadcast_callback :: "callback option \<Rightarrow> game_session \<Rightarrow> game_session" where
  "set_broadcast_callback cb s = s\<lparr>broadcast_callback := cb\<rparr>"

definition clear_current_question_answers :: "game_session \<Rightarrow> game_session" where
  "clear_current_question_answers s = s\<lparr>current_question_answered := {}\<rparr>"

definition has_answered_current_question :: "string \<Rightarrow> game_session \<Rightarrow> bool" where
  "has_answered_current_question c s \<longleftrightarrow> c \<in> current_question_answered s"

definition record_answer :: "string \<Rightarrow> game_session \<Rightarrow> bool \<times> game_session" where
  "record_answer c s =
     (if c \<in> current_question_answered s then (False, s)
      else (True, s\<lparr>current_question_answered := insert c (current_question_answered s)\<rparr>))"

definition get_current_question :: "game_session \<Rightarrow> base_question option" where
  "get_current_question s = get_question_at (quiz s) (current_question_index s)"

definition has_next_question :: "game_session \<Rightarrow> bool" where
  "has_next_question s \<longleftrightarrow> current_question_index s + 1 < question_count (quiz s)"

definition advance_to_next_question :: "game_session \<Rightarrow> bool \<times> game_session" where
  "advance_to_next_question s =
     (if \<not> has_next_question s then (False, s)
      else (True, s\<lparr>current_question_index := current_question_index s + 1\<rparr>))"

subsection \<open>The state classes (state/*.py)\<close>

fun state_name :: "game_state \<Rightarrow> string" where
  "state_name LobbyState = ''lobby''"
| "state_name QuestionState = ''question''"
| "state_name LeaderboardState = ''leaderboard''"
| "state_name FinishedState = ''finished''"

text \<open>\<open>on_enter\<close> is overridden by \<open>QuestionState\<close> only; \<open>on_leave\<close> by no class.\<close>

fun on_enter :: "game_state \<Rightarrow> game_session \<Rightarrow> game_session" where
  "on_enter QuestionState s = clear_current_question_answers s"
| "on_enter _ s = s"

fun on_leave :: "game_state \<Rightarrow> game_session \<Rightarrow> game_session" where
  "on_leave _ s = s"

fun can_start_question :: "game_state \<Rightarrow> game_session \<Rightarrow> bool" where
  "can_start_question LobbyState s = True"
| "can_start_question _ s = False"

fun can_show_leaderboard :: "game_state \<Rightarrow> game_session \<Rightarrow> bool" where
  "can_show_leaderboard QuestionState s = True"
| "can_show_leaderboard _ s = False"

fun can_go_next :: "game_state \<Rightarrow> game_session \<Rightarrow> bool" where
  "can_go_next QuestionState s = True"
| "can_go_next LeaderboardState s = True"
| "can_go_next _ s = False"

text \<open>\<open>get_next_state\<close> returns the successor and the session, since the leaderboard's
  version advances the cursor.\<close>

fun get_next_state :: "game_state \<Rightarrow> game_session \<Rightarrow> game_state option \<times> game_session" where
  "get_next_state LobbyState s =
     (if question_count (quiz s) = 0 then (None, s) else (Some QuestionState, s))"
| "get_next_state QuestionState s = (Some LeaderboardState, s)"
| "get_next_state LeaderboardState s =
     (if has_next_question s
      then (Some QuestionState, snd (advance_to_next_question s))
      else (Some FinishedState, s))"
| "get_next_state FinishedState s = (None, s)"

subsection \<open>Transitions (models/game_session.py)\<close>

definition log_effect :: "effect \<Rightarrow> game_session \<Rightarrow> game_session" where
  "log_effect e s = s\<lparr>effects := effects s @ [e]\<rparr>"

definition transition_to :: "game_state \<Rightarrow> game_session \<Rightarrow> game_session" where
  "transition_to new_state s =
     (let s1 = (case state s of None \<Rightarrow> s
                | Some st \<Rightarrow> on_leave st (log_effect (Called_on_leave st) s));
          s2 = log_effect (State_replaced new_state) (s1\<lparr>state := Some new_state\<rparr>);
          s3 = (case state s2 of None \<Rightarrow> s2
                | Some st \<Rightarrow> on_enter st (log_effect (Called_on_enter st) s2))
      in (case broadcast_callback s3 of None \<Rightarrow> s3
          | Some cb \<Rightarrow> log_effect (Called_callback cb) s3))"

definition trigger_next :: "game_session \<Rightarrow> bool \<times> game_session" where
  "trigger_next s =
     (case state s of None \<Rightarrow> (False, s)
      | Some st \<Rightarrow>
          if \<not> can_go_next st s then (False, s)
          else (case get_next_state st s of
                  (None, s1) \<Rightarrow> (False, s1)
                | (Some next_state, s1) \<Rightarrow> (True, transition_to next_state s1)))"

definition trigger_start_question :: "game_session \<Rightarrow> bool \<times> game_session" where
  "trigger_start_question s =
     (case state s of None \<Rightarrow> (False, s)
      | Some st \<Rightarrow>
          if \<not> can_start_question st s then (False, s)
          else (case get_next_state st s of
                  (None, s1) \<Rightarrow> (False, s1)
                | (Some next_state, s1) \<Rightarrow> (True, transition_to next_state s1)))"

subsection \<open>Callers: sequences of public operations\<close>

text \<open>
  A host or a player acts on a session through its public methods. An \<open>operation\<close> is
  one such call with its arguments; \<open>perform\<close> is the session after the call and
  \<open>transitioned\<close> is the boolean a trigger returned (no other call changes the state).
  The operations are the mutating methods of \<open>GameSession\<close>; the pure queries change
  nothing, and the two property setters, which write a field directly, are left out.
\<close>

datatype operation =
  Add_player player
| Remove_player string
| Record_answer string
| Set_broadcast_callback "callback option"
| Advance_to_next_question
| Trigger_start_question
| Trigger_next

fun perform :: "operation \<Rightarrow> game_session \<Rightarrow> game_session" where
  "perform (Add_player p) s = add_player p s"
| "perform (Remove_player c) s = snd (remove_player c s)"
| "perform (Record_answer c) s = snd (record_answer c s)"
| "perform (Set_broadcast_callback cb) s = set_broadcast_callback cb s"
| "perform Advance_to_next_question s = snd (advance_to_next_question s)"
| "perform Trigger_start_question s = snd (trigger_start_question s)"
| "perform Trigger_next s = snd (trigger_next s)"

fun transitioned :: "operation \<Rightarrow> game_session \<Rightarrow> bool" where
  "transitioned Trigger_start_question s = fst (trigger_start_question s)"
| "transitioned Trigger_next s = fst (trigger_next s)"
| "transitioned _ s = False"

fun perform_all :: "operation list \<Rightarrow> game_session \<Rightarrow> game_session" where
  "perform_all [] s = s"
| "perform_all (x # xs) s = perform_all xs (perform x s)"

text \<open>What an observer of \<open>session.state.state_name\<close> sees: the name at the start and
  the name after each call that reported a transition. A session whose \<open>state\<close> is
  \<open>None\<close> has no state name; the observer writes \<open>None\<close>, which is none of the four
  names.\<close>

definition current_state_name :: "game_session \<Rightarrow> string" where
  "current_state_name s = (case state s of None \<Rightarrow> ''None'' | Some st \<Rightarrow> state_name st)"

fun entered_names :: "operation list \<Rightarrow> game_session \<Rightarrow> string list" where
  "entered_names [] s = []"
| "entered_names (x # xs) s =
     (if transitioned x s
      then current_state_name (perform x s) # entered_names xs (perform x s)
      else entered_names xs (perform x s))"

definition observed_names :: "operation list \<Rightarrow> game_session \<Rightarrow> string list" where
  "observed_names ops s = current_state_name s # entered_names ops s"

text \<open>The cursor values an observer sees at the same moments.\<close>

fun entered_cursors :: "operation list \<Rightarrow> game_session \<Rightarrow> int list" where
  "entered_cursors [] s = []"
| "entered_cursors (x # xs) s =
     (if transitioned x s
      then current_question_index (perform x s) # entered_cursors xs (perform x s)
      else entered_cursors xs (perform x s))"

definition observed_cursors :: "operation list \<Rightarrow> game_session \<Rightarrow> int list" where
  "observed_cursors ops s = current_question_index s # entered_cursors ops s"

subsection \<open>The lifecycle as a language of state names\<close>

text \<open>\<open>lifecycle n\<close> is the word lobby, question, (leaderboard, question) n times,
  leaderboard, finished. \<open>lifecycle_prefix\<close> decides whether a word is a prefix of one
  of them; \<open>after_question\<close> does so for what follows a question.\<close>

definition lifecycle :: "nat \<Rightarrow> string list" where
  "lifecycle n =
     [''lobby'', ''question''] @ concat (replicate n [''leaderboard'', ''question''])
       @ [''leaderboard'', ''finished'']"

fun after_question :: "string list \<Rightarrow> bool" where
  "after_question [] = True"
| "after_question [a] = (a = ''leaderboard'')"
| "after_question (a # b # rest) =
     (a = ''leaderboard'' \<and>
      (if b = ''finished'' then rest = [] else b = ''question'' \<and> after_question rest))"

fun lifecycle_prefix :: "string list \<Rightarrow> bool" where
  "lifecycle_prefix [] = True"
| "lifecycle_prefix [a] = (a = ''lobby'')"
| "lifecycle_prefix (a # b # rest) = (a = ''lobby'' \<and> b = ''question'' \<and> after_question rest)"

text \<open>A single step of the lifecycle, on state objects.\<close>

fun lifecycle_step :: "game_state \<Rightarrow> game_state \<Rightarrow> bool" where
  "lifecycle_step LobbyState b = (b = QuestionState)"
| "lifecycle_step QuestionState b = (b = LeaderboardState)"
| "lifecycle_step LeaderboardState b = (b = QuestionState \<or> b = FinishedState)"
| "lifecycle_step FinishedState b = False"

text \<open>\<open>name_path a ns\<close>: the names \<open>ns\<close> are those of states reached from \<open>a\<close> by
  lifecycle steps, one after the other.\<close>

fun name_path :: "game_state \<Rightarrow> string list \<Rightarrow> bool" where
  "name_path a [] = True"
| "name_path a (n # ns) = (\<exists>b. lifecycle_step a b \<and> n = state_name b \<and> name_path b ns)"

subsection \<open>Fixtures for concrete runs\<close>

definition true_false :: "string \<Rightarrow> bool \<Rightarrow> base_question" where
  "true_false txt ans = TrueFalseQuestion (TrueFalseQuestion_init txt ans 30 None)"

definition quiz_of :: "base_question list \<Rightarrow> quiz" where
  "quiz_of qs =
     \<lparr>quiz_id = None, title = ''demo'', description = [], questions = qs,
      quiz_created_at = 0\<rparr>"

definition new_session :: "quiz \<Rightarrow> game_session" where
  "new_session q = GameSession_init ''123456'' q None None None 0"

section \<open>Facts about transitions\<close>


lemma state_transition_to [simp]: "state (transition_to n s) = Some n"
  by (cases n; cases "state s"; cases "broadcast_callback s")
     (simp_all add: transition_to_def log_effect_def clear_current_question_answers_def)

lemma quiz_transition_to [simp]: "quiz (transition_to n s) = quiz s"
  by (cases n; cases "state s"; cases "broadcast_callback s")
     (simp_all add: transition_to_def log_effect_def clear_current_question_answers_def)

lemma players_transition_to [simp]: "players (transition_to n s) = players s"
  by (cases n; cases "state s"; cases "broadcast_callback s")
     (simp_all add: transition_to_def log_effect_def clear_current_question_answers_def)

lemma cursor_transition_to [simp]:
  "current_question_index (transition_to n s) = current_question_index s"
  by (cases n; cases "state s"; cases "broadcast_callback s")
     (simp_all add: transition_to_def log_effect_def clear_current_question_answers_def)

lemma callback_transition_to [simp]:
  "broadcast_callback (transition_to n s) = broadcast_callback s"
  by (cases n; cases "state s"; cases "broadcast_callback s")
     (simp_all add: transition_to_def log_effect_def clear_current_question_answers_def)

lemma answered_transition_to [simp]:
  "current_question_answered (transition_to n s) =
     (if n = QuestionState then {} else current_question_answered s)"
  by (cases n; cases "state s"; cases "broadcast_callback s")
     (simp_all add: transition_to_def log_effect_def clear_current_question_answers_def)


text \<open>The triggers, state by state.\<close>

lemma trigger_start_question_eq:
  "trigger_start_question s =
     (if state s = Some LobbyState \<and> questions (quiz s) \<noteq> []
      then (True, transition_to QuestionState s) else (False, s))"
  by (cases "state s"; cases "the (state s)")
     (simp_all add: trigger_start_question_def question_count_def)

lemma trigger_next_eq:
  "trigger_next s =
     (if state s = Some QuestionState then (True, transition_to LeaderboardState s)
      else if state s = Some LeaderboardState then
        (if has_next_question s
         then (True, transition_to QuestionState
                       (s\<lparr>current_question_index := current_question_index s + 1\<rparr>))
         else (True, transition_to FinishedState s))
      else (False, s))"
  by (cases "state s"; cases "the (state s)")
     (simp_all add: trigger_next_def advance_to_next_question_def)

lemma not_transitioned_same_state: "\<not> transitioned x s \<Longrightarrow> state (perform x s) = state s"
  by (cases x)
     (simp_all add: trigger_start_question_eq trigger_next_eq add_player_def remove_player_def
        record_answer_def set_broadcast_callback_def advance_to_next_question_def
        split: if_splits)

lemma transitioned_lifecycle_step:
  "transitioned x s \<Longrightarrow>
     \<exists>a b. state s = Some a \<and> state (perform x s) = Some b \<and> lifecycle_step a b"
  by (cases x) (simp_all add: trigger_start_question_eq trigger_next_eq split: if_splits)


lemma entered_names_path:
  "state s = Some a \<Longrightarrow> name_path a (entered_names xs s)"
proof (induction xs arbitrary: s a)
  case Nil
  then show ?case by simp
next
  case (Cons x xs)
  show ?case
  proof (cases "transitioned x s")
    case True
    from transitioned_lifecycle_step [OF True] Cons.prems
    obtain b where b: "state (perform x s) = Some b" "lifecycle_step a b" by auto
    have "name_path b (entered_names xs (perform x s))" using Cons.IH [OF b(1)] .
    then show ?thesis using True b by (auto simp: current_state_name_def)
  next
    case False
    then have "state (perform x s) = Some a"
      using not_transitioned_same_state Cons.prems by simp
    then show ?thesis using False Cons.IH by simp
  qed
qed

lemma name_path_finished: "name_path FinishedState ns \<Longrightarrow> ns = []"
  by (cases ns) auto

lemma name_path_question: "name_path QuestionState ns \<Longrightarrow> after_question ns"
proof (induction ns rule: after_question.induct)
  case 1
  then show ?case by simp
next
  case (2 a)
  then show ?case by auto
next
  case (3 a b rest)
  from "3.prems" obtain y where y: "a = ''leaderboard''" "lifecycle_step LeaderboardState y"
    "b = state_name y" "name_path y rest" by auto
  show ?case
  proof (cases "y = FinishedState")
    case True
    then show ?thesis using y name_path_finished by auto
  next
    case False
    then have "y = QuestionState" using y(2) by simp
    then show ?thesis using y "3.IH" by simp
  qed
qed

lemma name_path_lobby: "name_path LobbyState ns \<Longrightarrow> lifecycle_prefix (''lobby'' # ns)"
  by (cases ns) (auto dest: name_path_question)

lemma replicate_pair_Suc:
  "concat (replicate (Suc n) [a, b]) = a # b # concat (replicate n [a, b])"
  by simp

lemma after_question_iff:
  "after_question xs \<longleftrightarrow>
     (\<exists>n. prefix xs (concat (replicate n [''leaderboard'', ''question''])
                        @ [''leaderboard'', ''finished'']))"
proof
  show "after_question xs \<Longrightarrow>
     \<exists>n. prefix xs (concat (replicate n [''leaderboard'', ''question''])
                        @ [''leaderboard'', ''finished''])"
  proof (induction xs rule: after_question.induct)
    case 1
    then show ?case by simp
  next
    case (2 a)
    then have "prefix [a] (concat (replicate 0 [''leaderboard'', ''question''])
                        @ [''leaderboard'', ''finished''])" by simp
    then show ?case by blast
  next
    case (3 a b rest)
    show ?case
    proof (cases "b = ''finished''")
      case True
      with "3.prems" have "prefix (a # b # rest) (concat (replicate 0 [''leaderboard'', ''question''])
                        @ [''leaderboard'', ''finished''])" by simp
      then show ?thesis by blast
    next
      case False
      with "3.prems" have ab: "a = ''leaderboard''" "b = ''question''" "after_question rest"
        by simp_all
      from "3.IH" [OF False ab(3)] obtain n where
        "prefix rest (concat (replicate n [''leaderboard'', ''question''])
                        @ [''leaderboard'', ''finished''])" by blast
      then have "prefix (a # b # rest) (concat (replicate (Suc n) [''leaderboard'', ''question''])
                        @ [''leaderboard'', ''finished''])"
        using ab by (simp only: replicate_pair_Suc append_Cons Sublist.Cons_prefix_Cons)
      then show ?thesis by blast
    qed
  qed
next
  assume "\<exists>n. prefix xs (concat (replicate n [''leaderboard'', ''question''])
                        @ [''leaderboard'', ''finished''])"
  then obtain n where "prefix xs (concat (replicate n [''leaderboard'', ''question''])
                        @ [''leaderboard'', ''finished''])" ..
  then show "after_question xs"
  proof (induction n arbitrary: xs)
    case 0
    then show ?case by (auto simp: prefix_Cons)
  next
    case (Suc n)
    from Suc.prems have "prefix xs (''leaderboard'' # ''question'' #
        (concat (replicate n [''leaderboard'', ''question'']) @ [''leaderboard'', ''finished'']))"
      by (simp only: replicate_pair_Suc append_Cons)
    then consider "xs = []" | "xs = [''leaderboard'']"
      | zs where "xs = ''leaderboard'' # ''question'' # zs"
          "prefix zs (concat (replicate n [''leaderboard'', ''question''])
                        @ [''leaderboard'', ''finished''])"
      by (auto simp: prefix_Cons)
    then show ?case
    proof cases
      case 1
      then show ?thesis by simp
    next
      case 2
      then show ?thesis by simp
    next
      case 3
      then show ?thesis using Suc.IH by simp
    qed
  qed
qed

lemma lifecycle_prefix_iff: "lifecycle_prefix xs \<longleftrightarrow> (\<exists>n. prefix xs (lifecycle n))"
proof (cases xs rule: lifecycle_prefix.cases)
  case 1
  then show ?thesis by simp
next
  case (2 a)
  then show ?thesis by (auto simp: lifecycle_def)
next
  case (3 a b rest)
  then show ?thesis by (auto simp: lifecycle_def after_question_iff simp del: replicate_Suc)
qed

lemma finished_stays:
  "state s = Some FinishedState \<Longrightarrow> state (perform_all xs s) = Some FinishedState"
proof (induction xs arbitrary: s)
  case Nil
  then show ?case by simp
next
  case (Cons x xs)
  have "\<not> transitioned x s"
    using Cons.prems transitioned_lifecycle_step [of x s] by auto
  then have "state (perform x s) = Some FinishedState"
    using not_transitioned_same_state Cons.prems by simp
  then show ?case using Cons.IH by simp
qed

lemmas run_defs = observed_names_def observed_cursors_def current_state_name_def new_session_def
  GameSession_init_def quiz_of_def true_false_def trigger_start_question_eq trigger_next_eq
  has_next_question_def question_count_def

section \<open>The lifecycle of a session\<close>

text \<open>
  Claim C1, as the code has it. The constructor takes the state to start in
  (\<open>initial_state\<close>, default the lobby). For a session built with the default, the state
  names observed over any sequence of operations (\<open>add_player\<close>, \<open>remove_player\<close>,
  \<open>record_answer\<close>, \<open>set_broadcast_callback\<close>, \<open>advance_to_next_question\<close> and the two
  triggers) form a prefix of lobby, question, (leaderboard, question)*, leaderboard, finished. For every
  session, however built, each call that reports a transition goes from the current state
  to a lifecycle successor (lobby to question, question to leaderboard, leaderboard to
  question or finished), so no state is skipped and the lobby is never entered again; and
  a finished session never transitions and stays finished.
\<close>

theorem lifecycle_of_default_session:
  "lifecycle_prefix (observed_names xs (GameSession_init p q sid created None now))
   \<and> (transitioned x s \<longrightarrow>
        (\<exists>a b. state s = Some a \<and> state (perform x s) = Some b \<and> lifecycle_step a b)
        \<and> state (perform x s) \<noteq> Some LobbyState)
   \<and> (state t = Some FinishedState \<longrightarrow>
        \<not> transitioned y t \<and> state (perform_all ys t) = Some FinishedState)"
proof (intro conjI impI)
  show "lifecycle_prefix (observed_names xs (GameSession_init p q sid created None now))"
    unfolding observed_names_def
    using name_path_lobby [OF entered_names_path
        [of "GameSession_init p q sid created None now" LobbyState xs]]
    by (simp add: GameSession_init_def current_state_name_def)
next
  assume "transitioned x s"
  then show "\<exists>a b. state s = Some a \<and> state (perform x s) = Some b \<and> lifecycle_step a b"
    by (rule transitioned_lifecycle_step)
next
  assume "transitioned x s"
  from transitioned_lifecycle_step [OF this]
  obtain a b where "state (perform x s) = Some b" "lifecycle_step a b" by blast
  then show "state (perform x s) \<noteq> Some LobbyState" by (cases a) auto
next
  assume "state t = Some FinishedState"
  then show "\<not> transitioned y t" using transitioned_lifecycle_step [of y t] by auto
next
  assume "state t = Some FinishedState"
  then show "state (perform_all ys t) = Some FinishedState" by (rule finished_stays)
qed

theorem lifecycle_of_default_session_witness:
  "lifecycle_prefix (observed_names
      [Trigger_start_question, Trigger_next, Trigger_next, Trigger_next, Trigger_next]
      (new_session (quiz_of [true_false ''a'' True, true_false ''b'' False])))
   \<and> transitioned Trigger_start_question (new_session (quiz_of [true_false ''a'' True]))
   \<and> state (perform Trigger_start_question (new_session (quiz_of [true_false ''a'' True])))
       = Some QuestionState
   \<and> state (perform_all [Trigger_next, Trigger_start_question]
        ((new_session (quiz_of [true_false ''a'' True]))\<lparr>state := Some FinishedState\<rparr>))
       = Some FinishedState"
  using lifecycle_of_default_session
    [of "[Trigger_start_question, Trigger_next, Trigger_next, Trigger_next, Trigger_next]"
        "''123456''" "quiz_of [true_false ''a'' True, true_false ''b'' False]" None None 0
        Trigger_start_question "new_session (quiz_of [true_false ''a'' True])"
        "(new_session (quiz_of [true_false ''a'' True]))\<lparr>state := Some FinishedState\<rparr>"
        Trigger_next "[Trigger_next, Trigger_start_question]"]
  by (simp add: run_defs)

text \<open>The claim as stated, for every session built on a non-empty quiz, fails for a session
  built with \<open>initial_state = LeaderboardState()\<close> on a one-question quiz: the observed
  names are leaderboard, finished.\<close>

theorem lifecycle_initial_state_counterexample:
  "observed_names [Trigger_next]
     (GameSession_init ''123456'' (quiz_of [true_false ''a'' True]) None None
        (Some LeaderboardState) 0) = [''leaderboard'', ''finished'']
   \<and> \<not> lifecycle_prefix (observed_names [Trigger_next]
     (GameSession_init ''123456'' (quiz_of [true_false ''a'' True]) None None
        (Some LeaderboardState) 0))"
  by (simp add: run_defs)

section \<open>Construction of a choice question\<close>

text \<open>
  Claim C9. Constructing a \<open>ChoiceQuestion\<close> raises exactly when the options list is empty
  or \<open>correct_index\<close> is negative or at least the number of options; with
  \<open>correct_index = len(options)\<close> it raises; with a non-empty list and index 0 it returns
  a question holding the given options and index.
\<close>

theorem choice_question_construction:
  "(isl (ChoiceQuestion_init txt opts idx lim qid) \<longleftrightarrow>
      opts = [] \<or> idx < 0 \<or> int (length opts) \<le> idx)
   \<and> ChoiceQuestion_init txt opts (int (length opts)) lim qid = Inl ValueError
   \<and> (opts \<noteq> [] \<longrightarrow>
        (\<exists>q. ChoiceQuestion_init txt opts 0 lim qid = Inr q
              \<and> options q = opts \<and> correct_index q = 0))"
  by (simp add: ChoiceQuestion_init_def)

theorem choice_question_construction_witness:
  "ChoiceQuestion_init ''q'' [''a'', ''b''] 2 30 None = Inl ValueError
   \<and> (\<exists>q. ChoiceQuestion_init ''q'' [''a'', ''b''] 0 30 None = Inr q
            \<and> options q = [''a'', ''b''] \<and> correct_index q = 0)"
  using choice_question_construction [of "''q''" "[''a'', ''b'']" 2 30 None] by simp

section \<open>The score of a player\<close>

text \<open>
  Claim C7 at a player with score 0 and the adjustment -5: the setter raises and stores
  nothing, while \<open>add_score\<close> stores the negative sum.
\<close>

theorem add_score_stores_negative:
  "set_score (- 5) (Player_init ''c1'' ''bob'' 0 None 0) = Inl ValueError
   \<and> score (add_score (- 5) (Player_init ''c1'' ''bob'' 0 None 0)) = - 5"
  by (simp add: set_score_def add_score_def Player_init_def)

section \<open>Recording answers\<close>

text \<open>
  Claim C2. \<open>record_answer(c)\<close> returns true and adds \<open>c\<close> to the answered-set when \<open>c\<close> is
  not in it, and returns false and changes nothing when it is. After any transition into
  the question state, two calls in a row for the same identity return true, then false.
  In a question state with a next question, a first and a second call return true and
  false; after the two transitions to the leaderboard and to the next question, the same
  identity is accepted again.
\<close>

theorem record_answer_once_per_question:
  "(c \<notin> current_question_answered s \<longrightarrow>
      record_answer c s =
        (True, s\<lparr>current_question_answered := insert c (current_question_answered s)\<rparr>))
   \<and> (c \<in> current_question_answered d \<longrightarrow> record_answer c d = (False, d))
   \<and> (transitioned x t \<and> state (perform x t) = Some QuestionState \<longrightarrow>
        (let t1 = perform x t;
             (r1, t2) = record_answer c t1;
             (r2, t3) = record_answer c t2
         in r1 \<and> \<not> r2 \<and> t3 = t2 \<and> state t3 = Some QuestionState
            \<and> current_question_answered t3 = {c}))
   \<and> (state u = Some QuestionState \<and> c \<notin> current_question_answered u
        \<and> has_next_question u \<longrightarrow>
        (let (r1, u1) = record_answer c u;
             (r2, u2) = record_answer c u1;
             (n1, u3) = trigger_next u2;
             (n2, u4) = trigger_next u3;
             (r3, u5) = record_answer c u4
         in r1 \<and> \<not> r2 \<and> n1 \<and> n2 \<and> state u3 = Some LeaderboardState
            \<and> state u4 = Some QuestionState \<and> r3 \<and> c \<in> current_question_answered u5))"
proof (intro conjI impI)
  show "c \<notin> current_question_answered s \<Longrightarrow>
      record_answer c s =
        (True, s\<lparr>current_question_answered := insert c (current_question_answered s)\<rparr>)"
    by (simp add: record_answer_def)
next
  show "c \<in> current_question_answered d \<Longrightarrow> record_answer c d = (False, d)"
    by (simp add: record_answer_def)
next
  assume a: "transitioned x t \<and> state (perform x t) = Some QuestionState"
  have "current_question_answered (perform x t) = {}"
    using a by (cases x) (auto simp: trigger_start_question_eq trigger_next_eq split: if_splits)
  then show "let t1 = perform x t;
             (r1, t2) = record_answer c t1;
             (r2, t3) = record_answer c t2
         in r1 \<and> \<not> r2 \<and> t3 = t2 \<and> state t3 = Some QuestionState
            \<and> current_question_answered t3 = {c}"
    using a by (simp add: record_answer_def)
next
  assume "state u = Some QuestionState \<and> c \<notin> current_question_answered u
        \<and> has_next_question u"
  then show "let (r1, u1) = record_answer c u;
             (r2, u2) = record_answer c u1;
             (n1, u3) = trigger_next u2;
             (n2, u4) = trigger_next u3;
             (r3, u5) = record_answer c u4
         in r1 \<and> \<not> r2 \<and> n1 \<and> n2 \<and> state u3 = Some LeaderboardState
            \<and> state u4 = Some QuestionState \<and> r3 \<and> c \<in> current_question_answered u5"
    by (simp add: record_answer_def trigger_next_eq has_next_question_def)
qed

theorem record_answer_once_per_question_witness:
  "record_answer ''c1'' (new_session (quiz_of [true_false ''a'' True, true_false ''b'' False]))
     = (True, (new_session (quiz_of [true_false ''a'' True, true_false ''b'' False]))
                \<lparr>current_question_answered := {''c1''}\<rparr>)
   \<and> record_answer ''c1''
        ((new_session (quiz_of [true_false ''a'' True, true_false ''b'' False]))
           \<lparr>current_question_answered := {''c1''}\<rparr>)
     = (False, (new_session (quiz_of [true_false ''a'' True, true_false ''b'' False]))
                \<lparr>current_question_answered := {''c1''}\<rparr>)
   \<and> transitioned Trigger_start_question
        ((new_session (quiz_of [true_false ''a'' True, true_false ''b'' False]))
           \<lparr>current_question_answered := {''c1''}\<rparr>)
   \<and> fst (record_answer ''c1'' (perform Trigger_start_question
        ((new_session (quiz_of [true_false ''a'' True, true_false ''b'' False]))
           \<lparr>current_question_answered := {''c1''}\<rparr>)))
   \<and> fst (record_answer ''c1'' (perform_all [Trigger_next, Trigger_next]
        (snd (record_answer ''c1'' (perform Trigger_start_question
          (new_session (quiz_of [true_false ''a'' True, true_false ''b'' False])))))))"
  using record_answer_once_per_question
    [of "''c1''" "new_session (quiz_of [true_false ''a'' True, true_false ''b'' False])"
        "(new_session (quiz_of [true_false ''a'' True, true_false ''b'' False]))
           \<lparr>current_question_answered := {''c1''}\<rparr>"
        Trigger_start_question
        "(new_session (quiz_of [true_false ''a'' True, true_false ''b'' False]))
           \<lparr>current_question_answered := {''c1''}\<rparr>"
        "perform Trigger_start_question
          (new_session (quiz_of [true_false ''a'' True, true_false ''b'' False]))"]
  by (simp add: run_defs record_answer_def)

section \<open>The transition protocol\<close>



text \<open>
  Claim C4. \<open>trigger_start_question\<close> and \<open>trigger_next\<close> return false and leave the whole
  session as it was (state, cursor, answered-set, players, and the effects, so no callback
  call) when the session has no state, when the legality predicate of the current state is
  false, or when \<open>get_next_state\<close> returns no successor; so does
  \<open>trigger_start_question\<close> in the question, leaderboard and finished states and
  \<open>trigger_next\<close> in the finished state. Whenever either returns false the session is
  unchanged.
\<close>

theorem rejected_trigger_changes_nothing:
  "((state s = None \<or> (\<exists>st. state s = Some st \<and>
        (\<not> can_start_question st s \<or> fst (get_next_state st s) = None)))
      \<longrightarrow> trigger_start_question s = (False, s))
   \<and> ((state t = None \<or> (\<exists>st. state t = Some st \<and>
        (\<not> can_go_next st t \<or> fst (get_next_state st t) = None)))
      \<longrightarrow> trigger_next t = (False, t))
   \<and> ((state u = Some QuestionState \<or> state u = Some LeaderboardState
        \<or> state u = Some FinishedState)
      \<longrightarrow> trigger_start_question u = (False, u))
   \<and> (state v = Some FinishedState \<longrightarrow> trigger_next v = (False, v))
   \<and> (fst (trigger_start_question w) = False \<longrightarrow> snd (trigger_start_question w) = w)
   \<and> (fst (trigger_next w') = False \<longrightarrow> snd (trigger_next w') = w')"
proof (intro conjI impI)
  assume "state s = None \<or> (\<exists>st. state s = Some st \<and>
        (\<not> can_start_question st s \<or> fst (get_next_state st s) = None))"
  then show "trigger_start_question s = (False, s)"
    by (cases "state s"; cases "the (state s)")
       (auto simp: trigger_start_question_def split: if_splits)
next
  assume "state t = None \<or> (\<exists>st. state t = Some st \<and>
        (\<not> can_go_next st t \<or> fst (get_next_state st t) = None))"
  then show "trigger_next t = (False, t)"
    by (cases "state t"; cases "the (state t)")
       (auto simp: trigger_next_def split: if_splits)
next
  assume "state u = Some QuestionState \<or> state u = Some LeaderboardState
        \<or> state u = Some FinishedState"
  then show "trigger_start_question u = (False, u)"
    by (auto simp: trigger_start_question_def)
next
  assume "state v = Some FinishedState"
  then show "trigger_next v = (False, v)"
    by (simp add: trigger_next_def)
next
  assume "fst (trigger_start_question w) = False"
  then show "snd (trigger_start_question w) = w"
    by (auto simp: trigger_start_question_eq split: if_splits)
next
  assume "fst (trigger_next w') = False"
  then show "snd (trigger_next w') = w'"
    by (auto simp: trigger_next_eq split: if_splits)
qed

theorem rejected_trigger_changes_nothing_witness:
  "trigger_start_question (new_session (quiz_of [])) = (False, new_session (quiz_of []))
   \<and> trigger_next (new_session (quiz_of [true_false ''a'' True]))
       = (False, new_session (quiz_of [true_false ''a'' True]))
   \<and> trigger_start_question
        (perform Trigger_start_question (new_session (quiz_of [true_false ''a'' True])))
       = (False, perform Trigger_start_question (new_session (quiz_of [true_false ''a'' True])))
   \<and> trigger_next ((new_session (quiz_of [true_false ''a'' True]))\<lparr>state := Some FinishedState\<rparr>)
       = (False, (new_session (quiz_of [true_false ''a'' True]))\<lparr>state := Some FinishedState\<rparr>)
   \<and> snd (trigger_start_question
        ((new_session (quiz_of [true_false ''a'' True]))\<lparr>state := None\<rparr>))
       = (new_session (quiz_of [true_false ''a'' True]))\<lparr>state := None\<rparr>
   \<and> snd (trigger_next ((new_session (quiz_of [true_false ''a'' True]))\<lparr>state := None\<rparr>))
       = (new_session (quiz_of [true_false ''a'' True]))\<lparr>state := None\<rparr>"
  using rejected_trigger_changes_nothing
    [where s = "new_session (quiz_of [])"
       and t = "new_session (quiz_of [true_false ''a'' True])"
       and u = "perform Trigger_start_question (new_session (quiz_of [true_false ''a'' True]))"
       and v = "(new_session (quiz_of [true_false ''a'' True]))\<lparr>state := Some FinishedState\<rparr>"
       and w = "(new_session (quiz_of [true_false ''a'' True]))\<lparr>state := None\<rparr>"
       and w' = "(new_session (quiz_of [true_false ''a'' True]))\<lparr>state := None\<rparr>"]
  by (simp add: run_defs)

section \<open>The cursor\<close>

text \<open>The quiz never changes, and a call moves the cursor by at most one step, forward,
  and only onto an index below the number of questions.\<close>

lemma quiz_perform [simp]: "quiz (perform x s) = quiz s"
  by (cases x)
     (simp_all add: trigger_start_question_eq trigger_next_eq add_player_def
        remove_player_def record_answer_def set_broadcast_callback_def
        advance_to_next_question_def)

lemma quiz_perform_all [simp]: "quiz (perform_all xs s) = quiz s"
  by (induction xs arbitrary: s) simp_all

lemma cursor_perform:
  "current_question_index (perform x s) = current_question_index s
   \<or> (current_question_index (perform x s) = current_question_index s + 1
      \<and> current_question_index s + 1 < int (length (questions (quiz s))))"
  by (cases x)
     (simp_all add: trigger_start_question_eq trigger_next_eq add_player_def
        remove_player_def record_answer_def set_broadcast_callback_def
        advance_to_next_question_def has_next_question_def question_count_def)

lemma cursor_perform_all_lower:
  "0 \<le> current_question_index s \<Longrightarrow> 0 \<le> current_question_index (perform_all xs s)"
proof (induction xs arbitrary: s)
  case Nil
  then show ?case by simp
next
  case (Cons x xs)
  have "0 \<le> current_question_index (perform x s)"
    using cursor_perform [of x s] Cons.prems by auto
  then show ?case using Cons.IH by simp
qed

lemma cursor_perform_all_upper:
  "current_question_index s < int (length (questions (quiz s))) \<Longrightarrow>
   current_question_index (perform_all xs s) < int (length (questions (quiz s)))"
proof (induction xs arbitrary: s)
  case Nil
  then show ?case by simp
next
  case (Cons x xs)
  have "current_question_index (perform x s) < int (length (questions (quiz (perform x s))))"
    using cursor_perform [of x s] Cons.prems by auto
  from Cons.IH [OF this] show ?case by simp
qed

lemma cursor_perform_all_single:
  "length (questions (quiz s)) = 1 \<Longrightarrow> current_question_index s = 0 \<Longrightarrow>
   current_question_index (perform_all xs s) = 0"
  using cursor_perform_all_lower [of s xs] cursor_perform_all_upper [of s xs] by simp

text \<open>
  Claim C5, as the code has it. \<open>has_next_question\<close> tests only
  \<open>cursor + 1 < question_count\<close>, with no lower bound. In every session reached from the
  constructor (with any \<open>initial_state\<close>) by the operations \<open>add_player\<close>,
  \<open>remove_player\<close>, \<open>record_answer\<close>, \<open>set_broadcast_callback\<close>,
  \<open>advance_to_next_question\<close>, \<open>trigger_start_question\<close> and \<open>trigger_next\<close>, the
  cursor is never negative, and there \<open>advance_to_next_question\<close> adds one to the cursor
  and returns true when the quiz has a question at cursor + 1, and returns false and
  changes nothing otherwise; the leaderboard's \<open>get_next_state\<close> advances the cursor and
  yields the question state in the first case and yields the finished state, cursor
  untouched, in the second. On a quiz of one question the cursor is 0 after any sequence
  of these operations. On a quiz of three questions the host's seven triggers pass through
  the eight states of the lifecycle with cursors 0, 0, 0, 1, 1, 2, 2, 2.
\<close>

theorem cursor_advance:
  "(s = perform_all xs (GameSession_init p q sid created init now) \<longrightarrow>
      advance_to_next_question s =
        (if get_question_at (quiz s) (current_question_index s + 1) \<noteq> None
         then (True, s\<lparr>current_question_index := current_question_index s + 1\<rparr>)
         else (False, s))
      \<and> get_next_state LeaderboardState s =
        (if get_question_at (quiz s) (current_question_index s + 1) \<noteq> None
         then (Some QuestionState, s\<lparr>current_question_index := current_question_index s + 1\<rparr>)
         else (Some FinishedState, s)))
   \<and> (length (questions q1) = 1 \<longrightarrow>
        current_question_index
          (perform_all ys (GameSession_init p1 q1 sid1 created1 init1 now1)) = 0)
   \<and> (length (questions q3) = 3 \<longrightarrow>
        observed_names
          [Trigger_start_question, Trigger_next, Trigger_next, Trigger_next, Trigger_next,
           Trigger_next, Trigger_next]
          (GameSession_init p3 q3 sid3 created3 None now3)
        = [''lobby'', ''question'', ''leaderboard'', ''question'', ''leaderboard'',
           ''question'', ''leaderboard'', ''finished'']
        \<and> observed_cursors
          [Trigger_start_question, Trigger_next, Trigger_next, Trigger_next, Trigger_next,
           Trigger_next, Trigger_next]
          (GameSession_init p3 q3 sid3 created3 None now3)
        = [0, 0, 0, 1, 1, 2, 2, 2])"
proof (intro conjI impI)
  assume s: "s = perform_all xs (GameSession_init p q sid created init now)"
  have "0 \<le> current_question_index (GameSession_init p q sid created init now)"
    by (simp add: GameSession_init_def)
  then have nn: "0 \<le> current_question_index s"
    unfolding s by (rule cursor_perform_all_lower)
  then have valid: "get_question_at (quiz s) (current_question_index s + 1) \<noteq> None
      \<longleftrightarrow> has_next_question s"
    by (simp add: get_question_at_def has_next_question_def question_count_def)
  show "advance_to_next_question s =
        (if get_question_at (quiz s) (current_question_index s + 1) \<noteq> None
         then (True, s\<lparr>current_question_index := current_question_index s + 1\<rparr>)
         else (False, s))"
    unfolding valid by (simp add: advance_to_next_question_def)
  show "get_next_state LeaderboardState s =
        (if get_question_at (quiz s) (current_question_index s + 1) \<noteq> None
         then (Some QuestionState, s\<lparr>current_question_index := current_question_index s + 1\<rparr>)
         else (Some FinishedState, s))"
    unfolding valid by (simp add: advance_to_next_question_def)
next
  assume "length (questions q1) = 1"
  then show "current_question_index
          (perform_all ys (GameSession_init p1 q1 sid1 created1 init1 now1)) = 0"
    by (intro cursor_perform_all_single) (simp_all add: GameSession_init_def)
next
  assume three: "length (questions q3) = 3"
  then show "observed_names
          [Trigger_start_question, Trigger_next, Trigger_next, Trigger_next, Trigger_next,
           Trigger_next, Trigger_next]
          (GameSession_init p3 q3 sid3 created3 None now3)
        = [''lobby'', ''question'', ''leaderboard'', ''question'', ''leaderboard'',
           ''question'', ''leaderboard'', ''finished'']"
    by (auto simp: observed_names_def current_state_name_def
          GameSession_init_def trigger_start_question_eq trigger_next_eq
          has_next_question_def question_count_def)
  from three show "observed_cursors
          [Trigger_start_question, Trigger_next, Trigger_next, Trigger_next, Trigger_next,
           Trigger_next, Trigger_next]
          (GameSession_init p3 q3 sid3 created3 None now3)
        = [0, 0, 0, 1, 1, 2, 2, 2]"
    by (auto simp: observed_cursors_def
          GameSession_init_def trigger_start_question_eq trigger_next_eq
          has_next_question_def question_count_def)
qed

theorem cursor_advance_witness:
  "advance_to_next_question
     (perform_all [Trigger_start_question, Trigger_next]
        (new_session (quiz_of [true_false ''a'' True, true_false ''b'' False])))
   = (True, (perform_all [Trigger_start_question, Trigger_next]
        (new_session (quiz_of [true_false ''a'' True, true_false ''b'' False])))
          \<lparr>current_question_index := 1\<rparr>)
   \<and> get_next_state LeaderboardState
     (perform_all [Trigger_start_question, Trigger_next]
        (new_session (quiz_of [true_false ''a'' True, true_false ''b'' False])))
   = (Some QuestionState, (perform_all [Trigger_start_question, Trigger_next]
        (new_session (quiz_of [true_false ''a'' True, true_false ''b'' False])))
          \<lparr>current_question_index := 1\<rparr>)
   \<and> current_question_index
        (perform_all [Trigger_start_question, Trigger_next, Trigger_next, Trigger_next]
           (new_session (quiz_of [true_false ''a'' True]))) = 0
   \<and> observed_cursors
        [Trigger_start_question, Trigger_next, Trigger_next, Trigger_next, Trigger_next,
         Trigger_next, Trigger_next]
        (new_session (quiz_of [true_false ''a'' True, true_false ''b'' False,
           true_false ''c'' True]))
      = [0, 0, 0, 1, 1, 2, 2, 2]"
  using cursor_advance
    [where s = "perform_all [Trigger_start_question, Trigger_next]
                  (new_session (quiz_of [true_false ''a'' True, true_false ''b'' False]))"
       and xs = "[Trigger_start_question, Trigger_next]"
       and p = "''123456''"
       and q = "quiz_of [true_false ''a'' True, true_false ''b'' False]"
       and sid = None and created = None and init = None and now = 0
       and ?q1.0 = "quiz_of [true_false ''a'' True]"
       and ys = "[Trigger_start_question, Trigger_next, Trigger_next, Trigger_next]"
       and ?p1.0 = "''123456''" and ?sid1.0 = None and ?created1.0 = None
       and ?init1.0 = None and ?now1.0 = 0
       and ?q3.0 = "quiz_of [true_false ''a'' True, true_false ''b'' False,
           true_false ''c'' True]"
       and ?p3.0 = "''123456''" and ?sid3.0 = None and ?created3.0 = None and ?now3.0 = 0]
  by (simp add: new_session_def quiz_of_def get_question_at_def
        trigger_start_question_eq trigger_next_eq GameSession_init_def)

text \<open>The claim as stated, for every session, fails where the cursor has been set below
  -1 through the property setter: on a one-question quiz with the cursor at -5,
  \<open>advance_to_next_question\<close> returns true and moves the cursor to -4, though the quiz
  has no question at -4; and the leaderboard's \<open>get_next_state\<close> yields the question
  state there.\<close>

theorem cursor_advance_negative_cursor_counterexample:
  "get_question_at
     (quiz (set_current_question_index (- 5) (new_session (quiz_of [true_false ''a'' True]))))
     (current_question_index
        (set_current_question_index (- 5) (new_session (quiz_of [true_false ''a'' True]))) + 1)
     = None
   \<and> advance_to_next_question
       (set_current_question_index (- 5) (new_session (quiz_of [true_false ''a'' True])))
     = (True, set_current_question_index (- 4) (new_session (quiz_of [true_false ''a'' True])))
   \<and> get_next_state LeaderboardState
       (set_current_question_index (- 5) (new_session (quiz_of [true_false ''a'' True])))
     = (Some QuestionState,
        set_current_question_index (- 4) (new_session (quiz_of [true_false ''a'' True])))"
  by (simp add: set_current_question_index_def new_session_def GameSession_init_def
        quiz_of_def get_question_at_def advance_to_next_question_def has_next_question_def
        question_count_def)

section \<open>The current question\<close>

text \<open>
  Claim C6, as the code has it. \<open>get_current_question\<close> reads the quiz at the cursor and
  never consults the state. In every session reached from the constructor on a non-empty
  quiz by operations (\<open>add_player\<close>, \<open>remove_player\<close>, \<open>record_answer\<close>,
  \<open>set_broadcast_callback\<close>, \<open>advance_to_next_question\<close> and the two triggers) the
  cursor is an index of the quiz, so the result is the quiz's
  question at the cursor in every state, the lobby and the finished state included, and
  is never absent.
\<close>

theorem current_question_always_present:
  "questions q \<noteq> [] \<and> s = perform_all xs (GameSession_init p q sid created init now) \<longrightarrow>
     0 \<le> current_question_index s
     \<and> current_question_index s < int (length (questions q))
     \<and> get_current_question s = Some (questions q ! nat (current_question_index s))"
proof (intro impI)
  assume a: "questions q \<noteq> [] \<and> s = perform_all xs (GameSession_init p q sid created init now)"
  let ?s0 = "GameSession_init p q sid created init now"
  have q0: "quiz ?s0 = q" and c0: "current_question_index ?s0 = 0"
    by (simp_all add: GameSession_init_def)
  have lo: "0 \<le> current_question_index s"
    using a cursor_perform_all_lower [of ?s0 xs] c0 by simp
  have "current_question_index (perform_all xs ?s0) < int (length (questions (quiz ?s0)))"
    by (rule cursor_perform_all_upper) (use a q0 c0 in simp)
  then have hi: "current_question_index s < int (length (questions q))"
    using a q0 by simp
  have "quiz s = q" using a q0 by simp
  then show "0 \<le> current_question_index s
     \<and> current_question_index s < int (length (questions q))
     \<and> get_current_question s = Some (questions q ! nat (current_question_index s))"
    using lo hi by (simp add: get_current_question_def get_question_at_def)
qed

theorem current_question_always_present_witness:
  "get_current_question
     (perform_all [Trigger_start_question, Trigger_next, Trigger_next]
        (new_session (quiz_of [true_false ''a'' True])))
   = Some (true_false ''a'' True)
   \<and> state (perform_all [Trigger_start_question, Trigger_next, Trigger_next]
        (new_session (quiz_of [true_false ''a'' True]))) = Some FinishedState"
  using current_question_always_present
    [where q = "quiz_of [true_false ''a'' True]"
       and s = "perform_all [Trigger_start_question, Trigger_next, Trigger_next]
                  (new_session (quiz_of [true_false ''a'' True]))"
       and xs = "[Trigger_start_question, Trigger_next, Trigger_next]"
       and p = "''123456''" and sid = None and created = None and init = None and now = 0]
  by (simp add: run_defs)

text \<open>The claim as stated fails in the lobby: a new session on a one-question quiz, before
  any transition, already returns that question.\<close>

theorem current_question_in_lobby_counterexample:
  "state (new_session (quiz_of [true_false ''a'' True])) = Some LobbyState
   \<and> effects (new_session (quiz_of [true_false ''a'' True])) = []
   \<and> get_current_question (new_session (quiz_of [true_false ''a'' True]))
       = Some (true_false ''a'' True)"
  by (simp add: run_defs get_current_question_def get_question_at_def)

section \<open>The answered-set and the player map\<close>

text \<open>A call adds to the answered-set at most the identity it records.\<close>

lemma answered_perform:
  "current_question_answered (perform x s)
     \<subseteq> current_question_answered s \<union> {c. x = Record_answer c}"
  by (cases x)
     (auto simp: trigger_start_question_eq trigger_next_eq add_player_def
        remove_player_def record_answer_def set_broadcast_callback_def
        advance_to_next_question_def split: if_splits)

lemma answered_perform_all:
  "current_question_answered (perform_all xs s)
     \<subseteq> current_question_answered s \<union> {c. Record_answer c \<in> set xs}"
proof (induction xs arbitrary: s)
  case Nil
  then show ?case by simp
next
  case (Cons x xs)
  have "current_question_answered (perform_all xs (perform x s))
     \<subseteq> current_question_answered (perform x s) \<union> {c. Record_answer c \<in> set xs}"
    by (rule Cons.IH)
  then show ?case using answered_perform [of x s] by auto
qed

text \<open>
  Claim C8, as the code has it. Over any sequence of public calls the answered-set holds
  only identities that were in it at the start or were passed to \<open>record_answer\<close> during
  the sequence. \<open>remove_player\<close> and \<open>add_player\<close> leave the answered-set as it is, and
  \<open>record_answer\<close> adds the identity it is given without looking at the player map.
\<close>

theorem answered_set_bound:
  "current_question_answered (perform_all xs s)
     \<subseteq> current_question_answered s \<union> {c. Record_answer c \<in> set xs}
   \<and> current_question_answered (snd (remove_player c s)) = current_question_answered s
   \<and> current_question_answered (add_player pl s) = current_question_answered s
   \<and> current_question_answered (snd (record_answer c s))
       = insert c (current_question_answered s)"
  using answered_perform_all [of xs s]
  by (auto simp: remove_player_def add_player_def record_answer_def)

theorem answered_set_bound_witness:
  "current_question_answered
     (perform_all [Add_player (Player_init ''c1'' ''bob'' 0 None 0), Record_answer ''c1'',
                   Remove_player ''c1'']
        (new_session (quiz_of [true_false ''a'' True]))) = {''c1''}
   \<and> current_question_answered
     (snd (record_answer ''ghost'' (new_session (quiz_of [true_false ''a'' True]))))
     = {''ghost''}"
  using answered_set_bound
    [where xs = "[Add_player (Player_init ''c1'' ''bob'' 0 None 0), Record_answer ''c1'',
                   Remove_player ''c1'']"
       and s = "new_session (quiz_of [true_false ''a'' True])"
       and c = "''ghost''"]
  by (simp add: run_defs add_player_def remove_player_def record_answer_def Player_init_def)

text \<open>The claim as stated fails twice: after a player joins, answers and is removed, its
  identity is still in the answered-set though no longer a key of the player map; and an
  identity that never joined is added by \<open>record_answer\<close>.\<close>

theorem answered_not_subset_of_players_counterexample:
  "\<not> current_question_answered
       (perform_all [Add_player (Player_init ''c1'' ''bob'' 0 None 0), Record_answer ''c1'',
                     Remove_player ''c1'']
          (new_session (quiz_of [true_false ''a'' True])))
     \<subseteq> dom (players
       (perform_all [Add_player (Player_init ''c1'' ''bob'' 0 None 0), Record_answer ''c1'',
                     Remove_player ''c1'']
          (new_session (quiz_of [true_false ''a'' True]))))
   \<and> \<not> current_question_answered
       (perform_all [Record_answer ''ghost''] (new_session (quiz_of [true_false ''a'' True])))
     \<subseteq> dom (players
       (perform_all [Record_answer ''ghost''] (new_session (quiz_of [true_false ''a'' True]))))"
  by (simp add: run_defs add_player_def remove_player_def record_answer_def Player_init_def)

text \<open>
  Claim C10. \<open>record_answer\<close> accepts an identity that is not in the answered-set whatever
  the state and the player map are: after the answered-set is cleared and any public calls
  that do not record that identity, in whatever states they pass through, the call returns
  true and adds it; and it does so in a session with any state, or none, and no players.
\<close>

theorem record_answer_no_precondition:
  "(c \<notin> current_question_answered s \<longrightarrow>
      record_answer c s =
        (True, s\<lparr>current_question_answered := insert c (current_question_answered s)\<rparr>))
   \<and> (Record_answer c \<notin> set xs \<longrightarrow>
        (let t1 = perform_all xs (clear_current_question_answers t)
         in record_answer c t1 =
              (True, t1\<lparr>current_question_answered :=
                          insert c (current_question_answered t1)\<rparr>)))
   \<and> record_answer c (u\<lparr>state := st, players := Map.empty, current_question_answered := {}\<rparr>)
       = (True, u\<lparr>state := st, players := Map.empty, current_question_answered := {c}\<rparr>)"
proof (intro conjI impI)
  show "c \<notin> current_question_answered s \<Longrightarrow>
      record_answer c s =
        (True, s\<lparr>current_question_answered := insert c (current_question_answered s)\<rparr>)"
    by (simp add: record_answer_def)
next
  assume a: "Record_answer c \<notin> set xs"
  have "c \<notin> current_question_answered (perform_all xs (clear_current_question_answers t))"
    using answered_perform_all [of xs "clear_current_question_answers t"] a
    by (auto simp: clear_current_question_answers_def)
  then show "let t1 = perform_all xs (clear_current_question_answers t)
         in record_answer c t1 =
              (True, t1\<lparr>current_question_answered :=
                          insert c (current_question_answered t1)\<rparr>)"
    by (simp add: record_answer_def Let_def)
next
  show "record_answer c (u\<lparr>state := st, players := Map.empty, current_question_answered := {}\<rparr>)
       = (True, u\<lparr>state := st, players := Map.empty, current_question_answered := {c}\<rparr>)"
    by (simp add: record_answer_def)
qed

theorem record_answer_no_precondition_witness:
  "record_answer ''ghost'' (new_session (quiz_of [true_false ''a'' True]))
     = (True, (new_session (quiz_of [true_false ''a'' True]))
                \<lparr>current_question_answered := {''ghost''}\<rparr>)
   \<and> fst (record_answer ''ghost''
        (perform_all [Trigger_start_question, Record_answer ''c1'', Trigger_next, Trigger_next]
          (clear_current_question_answers (new_session (quiz_of [true_false ''a'' True])))))
   \<and> state (perform_all [Trigger_start_question, Record_answer ''c1'', Trigger_next, Trigger_next]
          (clear_current_question_answers (new_session (quiz_of [true_false ''a'' True]))))
       = Some FinishedState"
  using record_answer_no_precondition
    [where c = "''ghost''" and s = "new_session (quiz_of [true_false ''a'' True])"
       and xs = "[Trigger_start_question, Record_answer ''c1'', Trigger_next, Trigger_next]"
       and t = "new_session (quiz_of [true_false ''a'' True])"]
  by (simp add: run_defs record_answer_def clear_current_question_answers_def Let_def)

end
